theory Spec2Isabelle
  imports Complex_Main
begin

section \<open>Rate limiter (security.js, class SecurityFramework)\<close>

text \<open>
  \<^verbatim>\<open>this.rateLimitStore\<close> is a JavaScript \<^verbatim>\<open>Map\<close> from action keys to objects
  \<^verbatim>\<open>{count, timestamp}\<close>. The store is a partial map; \<^verbatim>\<open>Date.now()\<close>, an integer
  number of milliseconds, is an argument of the model.
\<close>

record rateLimitEntry =
  count :: int
  timestamp :: int

type_synonym rateLimitStore = "string \<rightharpoonup> rateLimitEntry"

text \<open>
  \<^verbatim>\<open>initializeRateLimiting\<close>: the store starts as an empty map, and the callback given to
  \<^verbatim>\<open>setInterval(..., 60000)\<close> is \<^verbatim>\<open>this.rateLimitStore.clear()\<close>.
\<close>

definition initializeRateLimiting :: rateLimitStore where
  "initializeRateLimiting = Map.empty"

definition clearStore :: "rateLimitStore \<Rightarrow> rateLimitStore" where
  "clearStore store = Map.empty"

text \<open>
  The loop at the head of \<^verbatim>\<open>checkRateLimit\<close>:
  \<^verbatim>\<open>for (let [storedKey, data] of this.rateLimitStore)
     if (data.timestamp < windowStart) this.rateLimitStore.delete(storedKey);\<close>
\<close>

definition cleanOldEntries :: "int \<Rightarrow> rateLimitStore \<Rightarrow> rateLimitStore" where
  "cleanOldEntries windowStart store =
     (\<lambda>storedKey. case store storedKey of
        None \<Rightarrow> None
      | Some d \<Rightarrow> if timestamp d < windowStart then None else Some d)"

text \<open>
  \<^verbatim>\<open>checkRateLimit(key, maxRequests = 5)\<close>, with the call time \<open>now\<close> and the store
  passed explicitly; the result is the returned boolean and the store after the call.
\<close>

definition checkRateLimit ::
  "string \<Rightarrow> int \<Rightarrow> int \<Rightarrow> rateLimitStore \<Rightarrow> bool \<times> rateLimitStore" where
  "checkRateLimit key maxRequests now store =
     (let windowStart = now - 60000;
          store1 = cleanOldEntries windowStart store
      in case store1 key of
           None \<Rightarrow> (True, store1(key \<mapsto> \<lparr>count = 1, timestamp = now\<rparr>))
         | Some existing \<Rightarrow>
             if count existing \<ge> maxRequests then (False, store1)
             else (True, store1(key \<mapsto>
                     existing\<lparr>count := count existing + 1, timestamp := now\<rparr>)))"

text \<open>The default argument \<^verbatim>\<open>maxRequests = 5\<close>.\<close>

definition checkRateLimitDefault ::
  "string \<Rightarrow> int \<Rightarrow> rateLimitStore \<Rightarrow> bool \<times> rateLimitStore" where
  "checkRateLimitDefault key now store = checkRateLimit key 5 now store"

text \<open>
  A run of consecutive calls with the same key and limit, one per call time, threading the
  store through; it returns the booleans in call order and the final store.
\<close>

fun checkRateLimitRun ::
  "string \<Rightarrow> int \<Rightarrow> int list \<Rightarrow> rateLimitStore \<Rightarrow> bool list \<times> rateLimitStore" where
  "checkRateLimitRun key maxRequests [] store = ([], store)"
| "checkRateLimitRun key maxRequests (now # later) store =
     (case checkRateLimit key maxRequests now store of
        (allowed, store') \<Rightarrow>
          (case checkRateLimitRun key maxRequests later store' of
             (rest, final) \<Rightarrow> (allowed # rest, final)))"

text \<open>Stores used as concrete inputs below.\<close>

definition staleNeighbourStore :: rateLimitStore where
  "staleNeighbourStore =
     [''k'' \<mapsto> \<lparr>count = 3, timestamp = 100000\<rparr>,
      ''j'' \<mapsto> \<lparr>count = 1, timestamp = 0\<rparr>]"

definition exhaustedStore :: rateLimitStore where
  "exhaustedStore = [''k'' \<mapsto> \<lparr>count = 3, timestamp = 100000\<rparr>]"

section \<open>Savings calculator (calculator.js, class Calculator)\<close>

text \<open>
  JavaScript numbers are modelled as reals with exact arithmetic. For whole-number inputs
  in the validated ranges every product, sum and difference below is a whole number far
  under \<open>2 ^ 53\<close>, which doubles represent exactly; only the quotient of
  \<open>savingsPercent\<close> is rounded by the machine.
\<close>

record calcInputs =
  dieselCost :: real
  monthlyKm :: real
  vehicleCount :: real
  ppaModel :: string

record calcResults =
  currentMonthlyCost :: real
  newMonthlyCost :: real
  monthlySavings :: real
  savingsPercent :: real
  annualSavings :: real

text \<open>
  \<^verbatim>\<open>validateNumberInput(elementId, min, max)\<close>. Its first argument here is
  \<^verbatim>\<open>parseFloat(element.value)\<close>: \<open>None\<close> when the element does not exist or the
  value parses to NaN. The inline error messages it shows and clears are left out.
\<close>

definition validateNumberInput :: "real option \<Rightarrow> real \<Rightarrow> real \<Rightarrow> real option" where
  "validateNumberInput parsed lo hi =
     (case parsed of
        None \<Rightarrow> None
      | Some v \<Rightarrow> if v < lo \<or> v > hi then None else Some v)"

text \<open>
  \<^verbatim>\<open>validateSelectInput(elementId)\<close>; the argument is \<^verbatim>\<open>element.value\<close>, \<open>None\<close>
  when the element does not exist.
\<close>

definition validOptions :: "string list" where
  "validOptions = [''exchange'', ''traditional'', ''lease'']"

definition validateSelectInput :: "string option \<Rightarrow> string option" where
  "validateSelectInput selected =
     (case selected of
        None \<Rightarrow> None
      | Some v \<Rightarrow> if v \<in> set validOptions then Some v else None)"

text \<open>\<^verbatim>\<open>getValidatedInputs()\<close>: \<open>None\<close> is the source's \<^verbatim>\<open>null\<close>.\<close>

definition getValidatedInputs ::
  "real option \<Rightarrow> real option \<Rightarrow> real option \<Rightarrow> string option \<Rightarrow> calcInputs option" where
  "getValidatedInputs currentDiesel monthlyKmField vehicleCountField ppaModelField =
     (case (validateNumberInput currentDiesel 50000 1000000,
            validateNumberInput monthlyKmField 100 10000,
            validateNumberInput vehicleCountField 1 50,
            validateSelectInput ppaModelField) of
        (Some d, Some k, Some v, Some m) \<Rightarrow>
          if m = [] then None
          else Some \<lparr>dieselCost = d, monthlyKm = k, vehicleCount = v, ppaModel = m\<rparr>
      | _ \<Rightarrow> None)"

text \<open>
  \<^verbatim>\<open>calculateSavings(inputs)\<close>. The \<^verbatim>\<open>switch\<close> keeps its \<^verbatim>\<open>default\<close> branch. Where
  \<open>currentMonthlyCost\<close> is 0 and the savings are positive JavaScript yields an infinity
  and HOL's \<open>x / 0\<close> is 0; \<open>getValidatedInputs\<close> excludes that case, and every statement
  about \<open>savingsPercent\<close> below is about validated inputs.
\<close>

definition calculateSavings :: "calcInputs \<Rightarrow> calcResults" where
  "calculateSavings inputs =
     (let current = dieselCost inputs * vehicleCount inputs;
          new = (if ppaModel inputs = ''exchange'' then 120000 * vehicleCount inputs
                 else if ppaModel inputs = ''traditional''
                   then (95000 * vehicleCount inputs)
                        + (14 * monthlyKm inputs * vehicleCount inputs)
                 else if ppaModel inputs = ''lease'' then 175000 * vehicleCount inputs
                 else current);
          savings = current - new;
          percent = (if savings > 0 then (savings / current) * 100 else 0);
          annual = savings * 12
      in \<lparr>currentMonthlyCost = current, newMonthlyCost = new, monthlySavings = savings,
          savingsPercent = percent, annualSavings = annual\<rparr>)"

text \<open>
  The part of the page that \<^verbatim>\<open>displayResults\<close> writes: the text content of the elements
  that exist, by id, and the class list of the parent of the element \<^verbatim>\<open>savings\<close>.
\<close>

record calcPage =
  elementText :: "string \<rightharpoonup> string"
  savingsParentClasses :: "string set"

definition updateElement :: "string \<Rightarrow> string \<Rightarrow> calcPage \<Rightarrow> calcPage" where
  "updateElement ident v page =
     (if elementText page ident = None then page
      else page\<lparr>elementText := (elementText page)(ident \<mapsto> v)\<rparr>)"

text \<open>\<^verbatim>\<open>Math.round\<close>: the nearest integer, ties towards plus infinity.\<close>

definition mathRound :: "real \<Rightarrow> int" where
  "mathRound x = \<lfloor>x + 1 / 2\<rfloor>"

text \<open>
  For an amount from \<open>- 1 / 2\<close> up to, but not including, 0 the result of
  \<^verbatim>\<open>Math.round\<close> is the negative zero of JavaScript, which a number formatter prints
  with a minus sign.
\<close>

definition roundsToNegativeZero :: "real \<Rightarrow> bool" where
  "roundsToNegativeZero x = (- 1 / 2 \<le> x \<and> x < 0)"

text \<open>
  \<^verbatim>\<open>formatCurrency(amount)\<close> hands \<^verbatim>\<open>Math.round(amount)\<close> to the formatter
  \<^verbatim>\<open>Intl.NumberFormat('en-KE', ...)\<close> of the platform, which is the parameter \<open>fmt\<close>:
  it gets the rounded value and whether that value is the negative zero.
\<close>

definition formatCurrency :: "(bool \<Rightarrow> int \<Rightarrow> string) \<Rightarrow> real \<Rightarrow> string" where
  "formatCurrency fmt amount = fmt (roundsToNegativeZero amount) (mathRound amount)"

definition digitChar :: "nat \<Rightarrow> char" where
  "digitChar d = ''0123456789'' ! (d mod 10)"

function decimalDigits :: "nat \<Rightarrow> string" where
  "decimalDigits n =
     (if n < 10 then [digitChar n] else decimalDigits (n div 10) @ [digitChar (n mod 10)])"
  by pat_completeness auto
termination
  by (relation "measure id") auto

declare decimalDigits.simps [simp del]

text \<open>
  \<^verbatim>\<open>x.toFixed(0)\<close> for \<open>\<bar>x\<bar> < 10 ^ 21\<close>: the sign, then the nearest integer to the
  magnitude, the larger one on a tie.
\<close>

definition toFixed0 :: "real \<Rightarrow> string" where
  "toFixed0 x =
     (if x < 0 then CHR ''-'' # decimalDigits (nat \<lfloor>- x + 1 / 2\<rfloor>)
      else decimalDigits (nat \<lfloor>x + 1 / 2\<rfloor>))"

definition toggleClass :: "string \<Rightarrow> bool \<Rightarrow> string set \<Rightarrow> string set" where
  "toggleClass name force classes = (if force then insert name classes else classes - {name})"

definition displayResults ::
  "(bool \<Rightarrow> int \<Rightarrow> string) \<Rightarrow> calcResults \<Rightarrow> calcPage \<Rightarrow> calcPage" where
  "displayResults fmt results page =
     (let p1 = updateElement ''currentCost'' (formatCurrency fmt (currentMonthlyCost results)) page;
          p2 = updateElement ''newCost'' (formatCurrency fmt (newMonthlyCost results)) p1;
          p3 = updateElement ''savings'' (formatCurrency fmt (monthlySavings results)) p2;
          p4 = updateElement ''savingsPercent''
                 (toFixed0 (max 0 (savingsPercent results)) @ ''%'') p3;
          p5 = updateElement ''annualSavings'' (formatCurrency fmt (annualSavings results)) p4
      in if elementText p5 ''savings'' = None then p5
         else p5\<lparr>savingsParentClasses :=
                   toggleClass ''negative-savings'' (monthlySavings results < 0)
                     (toggleClass ''positive-savings'' (monthlySavings results > 0)
                        (savingsParentClasses p5))\<rparr>)"

text \<open>Concrete inputs used below.\<close>

definition defaultInputs :: calcInputs where
  "defaultInputs =
     \<lparr>dieselCost = 250000, monthlyKm = 2000, vehicleCount = 1, ppaModel = ''exchange''\<rparr>"

definition cheapDieselInputs :: calcInputs where
  "cheapDieselInputs =
     \<lparr>dieselCost = 50000, monthlyKm = 2000, vehicleCount = 1, ppaModel = ''exchange''\<rparr>"

text \<open>A formatter without digit grouping, standing in for the platform's at concrete inputs.\<close>

definition plainFormat :: "bool \<Rightarrow> int \<Rightarrow> string" where
  "plainFormat negativeZero n =
     (if negativeZero \<or> n < 0 then CHR ''-'' # decimalDigits (nat (- n))
      else decimalDigits (nat n))"

definition resultsPage :: calcPage where
  "resultsPage =
     \<lparr>elementText = [''currentCost'' \<mapsto> [], ''newCost'' \<mapsto> [], ''savings'' \<mapsto> [],
                      ''savingsPercent'' \<mapsto> [], ''annualSavings'' \<mapsto> []],
      savingsParentClasses = {}\<rparr>"

section \<open>Input validation (security.js, class InputValidator)\<close>

text \<open>
  The arguments of the validators are JavaScript values: strings, whole numbers, booleans,
  \<^verbatim>\<open>null\<close> and \<^verbatim>\<open>undefined\<close> (symbols and objects are not among them). Strings are
  sequences of 8-bit characters;
  the white space of \<^verbatim>\<open>\s\<close> and \<^verbatim>\<open>trim()\<close> in that range is tab, line feed, vertical
  tab, form feed, carriage return, space and no-break space. A thrown exception is the
  \<open>Inl\<close> branch of the result.
\<close>

datatype jsError = TypeError | Error string

datatype jsValue = JString string | JNumber int | JBoolean bool | JNull | JUndefined

text \<open>\<^verbatim>\<open>ToString\<close>, which \<^verbatim>\<open>RegExp.prototype.test\<close> applies to its argument.\<close>

definition toStringJS :: "jsValue \<Rightarrow> string" where
  "toStringJS v =
     (case v of
        JString s \<Rightarrow> s
      | JNumber n \<Rightarrow>
          (if n < 0 then CHR ''-'' # decimalDigits (nat (- n)) else decimalDigits (nat n))
      | JBoolean b \<Rightarrow> (if b then ''true'' else ''false'')
      | JNull \<Rightarrow> ''null''
      | JUndefined \<Rightarrow> ''undefined'')"

definition isWhitespace :: "char \<Rightarrow> bool" where
  "isWhitespace c =
     (c \<in> set [CHR 0x09, CHR 0x0A, CHR 0x0B, CHR 0x0C, CHR 0x0D, CHR 0x20, CHR 0xA0])"

definition isDigit :: "char \<Rightarrow> bool" where
  "isDigit c = (c \<in> set ''0123456789'')"

definition isLetter :: "char \<Rightarrow> bool" where
  "isLetter c = (c \<in> set ''abcdefghijklmnopqrstuvwxyzABCDEFGHIJKLMNOPQRSTUVWXYZ'')"

definition isAlnum :: "char \<Rightarrow> bool" where
  "isAlnum c = (isLetter c \<or> isDigit c)"

text \<open>\<^verbatim>\<open>String.prototype.trim\<close>.\<close>

definition trim :: "string \<Rightarrow> string" where
  "trim s = rev (dropWhile isWhitespace (rev (dropWhile isWhitespace s)))"

text \<open>
  \<^verbatim>\<open>emailRegex\<close>: one or more characters of the local-part class, \<^verbatim>\<open>@\<close>, then labels
  separated by dots. A label is \<^verbatim>\<open>[a-zA-Z0-9](?:[a-zA-Z0-9-]{0,61}[a-zA-Z0-9])?\<close>: 1 to
  63 letters, digits and hyphens, the first and the last not a hyphen. Neither class
  contains \<^verbatim>\<open>@\<close> or the dot, so the local part ends at the first \<^verbatim>\<open>@\<close> and the labels
  are the pieces between the dots. The apostrophe and the backquote of the local-part
  class are written by their codes.
\<close>

definition isLocalChar :: "char \<Rightarrow> bool" where
  "isLocalChar c =
     (isAlnum c \<or> c \<in> set (''.!#$%&*+/=?^_{|}~-'' @ [CHR 0x27, CHR 0x60]))"

definition isLabel :: "string \<Rightarrow> bool" where
  "isLabel l =
     (l \<noteq> [] \<and> length l \<le> 63 \<and> isAlnum (hd l) \<and> isAlnum (last l)
      \<and> list_all (\<lambda>c. isAlnum c \<or> c = CHR ''-'') l)"

fun splitOn :: "char \<Rightarrow> string \<Rightarrow> string list" where
  "splitOn d [] = [] # []"
| "splitOn d (c # cs) =
     (if c = d then [] # splitOn d cs
      else (case splitOn d cs of [] \<Rightarrow> [c] # [] | w # ws \<Rightarrow> (c # w) # ws))"

definition emailRegex :: "string \<Rightarrow> bool" where
  "emailRegex s =
     (let localPart = takeWhile (\<lambda>c. c \<noteq> CHR ''@'') s;
          rest = dropWhile (\<lambda>c. c \<noteq> CHR ''@'') s
      in localPart \<noteq> [] \<and> list_all isLocalChar localPart \<and> rest \<noteq> []
         \<and> list_all isLabel (splitOn CHR ''.'' (tl rest)))"

text \<open>\<^verbatim>\<open>validateEmail(email)\<close>: \<^verbatim>\<open>emailRegex.test(email)\<close>.\<close>

definition validateEmail :: "jsValue \<Rightarrow> jsError + bool" where
  "validateEmail email = Inr (emailRegex (toStringJS email))"

text \<open>
  \<^verbatim>\<open>phoneRegex\<close> is \<^verbatim>\<open>/^(\+?254|0)?[17]\d{8}$/\<close>: an optional prefix \<^verbatim>\<open>+254\<close>,
  \<^verbatim>\<open>254\<close> or \<^verbatim>\<open>0\<close>, then a 1 or a 7 and eight digits.
\<close>

definition isSubscriber :: "string \<Rightarrow> bool" where
  "isSubscriber r =
     (length r = 9 \<and> (hd r = CHR ''1'' \<or> hd r = CHR ''7'') \<and> list_all isDigit (tl r))"

definition afterPrefix :: "string \<Rightarrow> string \<Rightarrow> bool" where
  "afterPrefix p s = (take (length p) s = p \<and> isSubscriber (drop (length p) s))"

definition phoneRegex :: "string \<Rightarrow> bool" where
  "phoneRegex s =
     (isSubscriber s \<or> afterPrefix ''+254'' s \<or> afterPrefix ''254'' s \<or> afterPrefix ''0'' s)"

text \<open>
  \<^verbatim>\<open>validatePhone(phone)\<close>: \<^verbatim>\<open>phoneRegex.test(phone.replace(/\s/g, ''))\<close>. Only a string
  has a \<^verbatim>\<open>replace\<close> method: on a number or a boolean \<^verbatim>\<open>phone.replace\<close> is
  \<^verbatim>\<open>undefined\<close>, and on \<^verbatim>\<open>null\<close> and \<^verbatim>\<open>undefined\<close> the property access itself fails;
  each is a \<^verbatim>\<open>TypeError\<close>.
\<close>

definition validatePhone :: "jsValue \<Rightarrow> jsError + bool" where
  "validatePhone phone =
     (case phone of
        JString s \<Rightarrow> Inr (phoneRegex (filter (\<lambda>c. \<not> isWhitespace c) s))
      | _ \<Rightarrow> Inl TypeError)"

text \<open>
  \<^verbatim>\<open>validateName(name)\<close>: the \<^verbatim>\<open>typeof\<close> guard, the length of the trimmed name, and
  \<^verbatim>\<open>/^[a-zA-Z\s\-']+$/\<close> on the untrimmed name.
\<close>

definition isNameChar :: "char \<Rightarrow> bool" where
  "isNameChar c = (isLetter c \<or> isWhitespace c \<or> c = CHR ''-'' \<or> c = CHR 0x27)"

definition validateName :: "jsValue \<Rightarrow> jsError + bool" where
  "validateName name =
     (case name of
        JString s \<Rightarrow>
          Inr (length (trim s) \<ge> 2 \<and> length (trim s) \<le> 50 \<and> s \<noteq> [] \<and> list_all isNameChar s)
      | _ \<Rightarrow> Inr False)"

text \<open>\<^verbatim>\<open>str.replace(/c/g, r)\<close> for a single character \<open>c\<close>.\<close>

definition replaceAll :: "char \<Rightarrow> string \<Rightarrow> string \<Rightarrow> string" where
  "replaceAll c r s = concat (map (\<lambda>x. if x = c then r else [x]) s)"

text \<open>
  \<^verbatim>\<open>sanitizeInput(input)\<close>: the \<^verbatim>\<open>typeof\<close> guard, then \<^verbatim>\<open>trim\<close> and the five
  replacements in the order of the source.
\<close>

definition sanitizeInput :: "jsValue \<Rightarrow> jsError + string" where
  "sanitizeInput input =
     (case input of
        JString s \<Rightarrow>
          Inr (replaceAll CHR ''/'' ''&#x2F;''
                (replaceAll (CHR 0x27) ''&#x27;''
                  (replaceAll (CHR 0x22) ''&quot;''
                    (replaceAll CHR ''>'' ''&gt;''
                      (replaceAll CHR ''<'' ''&lt;'' (trim s))))))
      | _ \<Rightarrow> Inr [])"

section \<open>Navigation (forms.js, class NavigationSystem)\<close>

text \<open>
  Markup is either the template literal that \<^verbatim>\<open>generateHomePage\<close> returns or a string
  supplied by one of the other generators. A coordinator is an instance built by
  \<^verbatim>\<open>new Calculator()\<close> or \<^verbatim>\<open>new FormHandler()\<close>. The only place where navigation
  builds one is \<^verbatim>\<open>initializePageFunctionality\<close>, and the state records the instances
  built there, in order: a page has a mounted coordinator only if one was built for it.
  (A FormHandler registers its listeners on \<^verbatim>\<open>document\<close>, a Calculator on the inputs it
  finds by id; what becomes of those listeners afterwards is not part of the model.)
\<close>

datatype html = HomeTemplate | Markup string

datatype coordinator = CalculatorInstance | FormHandlerInstance

text \<open>
  The links \<^verbatim>\<open>.nav-links a\<close>, and the part of the document and of the
  \<^verbatim>\<open>NavigationSystem\<close> object that navigation reads and writes. \<open>mainElement\<close> is the
  \<^verbatim>\<open>innerHTML\<close> of \<^verbatim>\<open>document.querySelector('main')\<close>, \<open>None\<close> when there is no such
  element; \<open>builtCoordinators\<close> are the instances built so far; \<open>navErrorLog\<close>
  collects the errors passed to \<^verbatim>\<open>console.error\<close>, and
  \<open>unhandledRejections\<close> the errors of the promises of \<^verbatim>\<open>loadPageContent\<close> that were
  rejected (\<open>navigateTo\<close> drops the promise).
\<close>

record navLink =
  dataPage :: string
  ariaCurrent :: "string option"
  activeClass :: bool

record navState =
  currentPage :: string
  locationHash :: string
  mainElement :: "html option"
  navLinks :: "navLink list"
  builtCoordinators :: "coordinator list"
  navErrorLog :: "jsError list"
  unhandledRejections :: "jsError list"

text \<open>
  \<^verbatim>\<open>generatePageContent\<close> and \<^verbatim>\<open>loadPageContent\<close> call five methods that the class in
  forms.js does not define (its last comment reads "Other page generators will follow
  similar pattern..."): four page generators and \<^verbatim>\<open>loadErrorPage\<close>. They are parameters
  of the model: a generator either throws or returns markup, and \<^verbatim>\<open>loadErrorPage\<close> maps
  the state to a new state or throws. Calling a method that is not defined throws a
  \<^verbatim>\<open>TypeError\<close>; \<open>sourceEnv\<close> below is the class exactly as the source has it. The two
  flags are the tests \<^verbatim>\<open>typeof Calculator !== 'undefined'\<close> and
  \<^verbatim>\<open>typeof FormHandler !== 'undefined'\<close>.
\<close>

record navEnv =
  generateSolutionsPage :: "jsError + html"
  generateModelsPage :: "jsError + html"
  generateCalculatorPage :: "jsError + html"
  generateContactPage :: "jsError + html"
  loadErrorPage :: "navState \<Rightarrow> jsError + navState"
  calculatorDefined :: bool
  formHandlerDefined :: bool

definition validPages :: "string list" where
  "validPages = [''home'', ''solutions'', ''models'', ''calculator'', ''contact'']"

definition isValidPage :: "string \<Rightarrow> bool" where
  "isValidPage page = (page \<in> set validPages)"

text \<open>
  \<^verbatim>\<open>generateHomePage()\<close> returns a fixed, non-empty template literal.
\<close>

definition generateHomePage :: html where
  "generateHomePage = HomeTemplate"

text \<open>
  In \<^verbatim>\<open>pageTemplates[page] || this.generateHomePage()\<close> the left side counts unless it is
  the empty string or \<^verbatim>\<open>undefined\<close>.
\<close>

definition truthy :: "html \<Rightarrow> bool" where
  "truthy h = (h \<noteq> Markup [])"

text \<open>
  The object literal \<^verbatim>\<open>pageTemplates\<close> and the lookup \<^verbatim>\<open>pageTemplates[page]\<close>; \<open>None\<close>
  is \<^verbatim>\<open>undefined\<close>. (Keys inherited from \<^verbatim>\<open>Object.prototype\<close> are not modelled;
  \<open>navigateTo\<close> passes one of the five own keys only.)
\<close>

definition pageTemplates :: "html \<Rightarrow> html \<Rightarrow> html \<Rightarrow> html \<Rightarrow> html \<Rightarrow> string \<Rightarrow> html option" where
  "pageTemplates home solutions models calculator contact page =
     (if page = ''home'' then Some home
      else if page = ''solutions'' then Some solutions
      else if page = ''models'' then Some models
      else if page = ''calculator'' then Some calculator
      else if page = ''contact'' then Some contact
      else None)"

text \<open>
  \<^verbatim>\<open>generatePageContent(page)\<close> evaluates all five generators, in the order of the
  literal, whatever the page is; the first exception rejects the promise.
\<close>

definition generatePageContent :: "navEnv \<Rightarrow> string \<Rightarrow> jsError + html" where
  "generatePageContent env page =
     (case generateSolutionsPage env of Inl e \<Rightarrow> Inl e | Inr solutions \<Rightarrow>
     (case generateModelsPage env of Inl e \<Rightarrow> Inl e | Inr models \<Rightarrow>
     (case generateCalculatorPage env of Inl e \<Rightarrow> Inl e | Inr calculator \<Rightarrow>
     (case generateContactPage env of Inl e \<Rightarrow> Inl e | Inr contact \<Rightarrow>
        (case pageTemplates generateHomePage solutions models calculator contact page of
           None \<Rightarrow> Inr generateHomePage
         | Some h \<Rightarrow> Inr (if truthy h then h else generateHomePage))))))"

text \<open>
  \<^verbatim>\<open>initializePageFunctionality(page)\<close>: the instance it builds is recorded; what the
  constructors do is not part of this model.
\<close>

definition initializePageFunctionality :: "navEnv \<Rightarrow> string \<Rightarrow> navState \<Rightarrow> navState" where
  "initializePageFunctionality env page s =
     (if page = ''calculator'' then
        (if calculatorDefined env
         then s\<lparr>builtCoordinators := builtCoordinators s @ [CalculatorInstance]\<rparr> else s)
      else if page = ''contact'' then
        (if formHandlerDefined env
         then s\<lparr>builtCoordinators := builtCoordinators s @ [FormHandlerInstance]\<rparr> else s)
      else s)"

text \<open>
  The \<^verbatim>\<open>try\<close> block of \<^verbatim>\<open>loadPageContent\<close>: the content is awaited, written to
  \<^verbatim>\<open>innerHTML\<close> (a \<^verbatim>\<open>TypeError\<close> when \<^verbatim>\<open>querySelector('main')\<close> is \<^verbatim>\<open>null\<close>), and the
  page functionality is initialised. An exception comes with the state at the throw.
\<close>

definition tryLoadPageContent :: "navEnv \<Rightarrow> string \<Rightarrow> navState \<Rightarrow> jsError \<times> navState + navState" where
  "tryLoadPageContent env page s =
     (case generatePageContent env page of
        Inl e \<Rightarrow> Inl (e, s)
      | Inr content \<Rightarrow>
          (case mainElement s of
             None \<Rightarrow> Inl (TypeError, s)
           | Some old \<Rightarrow>
               Inr (initializePageFunctionality env page (s\<lparr>mainElement := Some content\<rparr>))))"

text \<open>
  \<^verbatim>\<open>loadPageContent(page)\<close> once its promise has settled. The \<^verbatim>\<open>catch\<close> block logs the
  error and calls \<^verbatim>\<open>loadErrorPage\<close>; an exception of that call rejects the promise.
\<close>

definition loadPageContent :: "navEnv \<Rightarrow> string \<Rightarrow> navState \<Rightarrow> navState" where
  "loadPageContent env page s =
     (case tryLoadPageContent env page s of
        Inr s' \<Rightarrow> s'
      | Inl (e, s') \<Rightarrow>
          (let logged = s'\<lparr>navErrorLog := navErrorLog s' @ [e]\<rparr>
           in case loadErrorPage env logged of
                Inr s'' \<Rightarrow> s''
              | Inl e' \<Rightarrow> logged\<lparr>unhandledRejections := unhandledRejections logged @ [e']\<rparr>))"

text \<open>
  \<^verbatim>\<open>updateActiveNav(page)\<close>.
\<close>

definition updateActiveNav :: "string \<Rightarrow> navState \<Rightarrow> navState" where
  "updateActiveNav page s =
     s\<lparr>navLinks :=
         map (\<lambda>link. link\<lparr>ariaCurrent := Some (if dataPage link = page then ''page'' else ''false''),
                          activeClass := (dataPage link = page)\<rparr>)
           (navLinks s)\<rparr>"

text \<open>
  The first statement of \<^verbatim>\<open>navigateTo\<close>:
  \<^verbatim>\<open>if (!this.isValidPage(page)) page = 'home';\<close>
\<close>

definition targetPage :: "string \<Rightarrow> string" where
  "targetPage page = (if \<not> isValidPage page then ''home'' else page)"

text \<open>
  \<open>navigateTo\<close> is the state when the call \<^verbatim>\<open>navigateTo(page)\<close> returns: the current
  page, the fragment and the link highlighting are set, and \<^verbatim>\<open>loadPageContent\<close> is
  suspended at its \<^verbatim>\<open>await\<close>. \<open>navigateToSettled\<close> is the state after the rest of
  \<^verbatim>\<open>loadPageContent\<close> has run as well, which happens before any other event is handled.
  The \<^verbatim>\<open>hashchange\<close> event that the assignment to the fragment may queue is such a later
  event: a further navigation of the sequence.
\<close>

definition navigateTo :: "string \<Rightarrow> navState \<Rightarrow> navState" where
  "navigateTo page s =
     updateActiveNav (targetPage page)
       (s\<lparr>currentPage := targetPage page, locationHash := targetPage page\<rparr>)"

definition navigateToSettled :: "navEnv \<Rightarrow> string \<Rightarrow> navState \<Rightarrow> navState" where
  "navigateToSettled env page s = loadPageContent env (targetPage page) (navigateTo page s)"

text \<open>
  \<^verbatim>\<open>handleRouteChange()\<close>; \<open>locationHash\<close> is the fragment without its \<^verbatim>\<open>#\<close>.
\<close>

definition handleRouteChange :: "navEnv \<Rightarrow> navState \<Rightarrow> navState" where
  "handleRouteChange env s =
     navigateToSettled env (if locationHash s = [] then ''home'' else locationHash s) s"

text \<open>
  A sequence of navigations, each settled before the next starts.
\<close>

fun navigateAll :: "navEnv \<Rightarrow> string list \<Rightarrow> navState \<Rightarrow> navState" where
  "navigateAll env [] s = s"
| "navigateAll env (page # pages) s = navigateAll env pages (navigateToSettled env page s)"

text \<open>
  The five links that \<^verbatim>\<open>loadNavigation\<close> writes, and a state right after construction
  with an empty fragment and an empty main element.
\<close>

definition loadNavigation :: "navLink list" where
  "loadNavigation =
     map (\<lambda>p. \<lparr>dataPage = p, ariaCurrent = None, activeClass = False\<rparr>) validPages"

definition constructed :: navState where
  "constructed =
     \<lparr>currentPage = ''home'', locationHash = [], mainElement = Some (Markup []),
      navLinks = loadNavigation, builtCoordinators = [], navErrorLog = [],
      unhandledRejections = []\<rparr>"

text \<open>
  The class as the source has it: none of the four generators and no \<^verbatim>\<open>loadErrorPage\<close>
  is defined, so each of these calls throws a \<^verbatim>\<open>TypeError\<close>; calculator.js and the
  first part of forms.js define both coordinator classes.
\<close>

definition sourceEnv :: navEnv where
  "sourceEnv =
     \<lparr>generateSolutionsPage = Inl TypeError, generateModelsPage = Inl TypeError,
      generateCalculatorPage = Inl TypeError, generateContactPage = Inl TypeError,
      loadErrorPage = (\<lambda>s. Inl TypeError), calculatorDefined = True, formHandlerDefined = True\<rparr>"

section \<open>Form handling (forms.js, class FormHandler)\<close>

text \<open>
  A form control read by \<^verbatim>\<open>validateField\<close> (its value, the \<^verbatim>\<open>required\<close> attribute,
  \<^verbatim>\<open>type\<close>, \<^verbatim>\<open>name\<close> and \<^verbatim>\<open>tagName\<close>) with what the error display writes:
  \<^verbatim>\<open>aria-invalid\<close>, the class \<^verbatim>\<open>error\<close> and the text of its error element.
  \<open>fieldDefaultValue\<close> is the value that \<^verbatim>\<open>form.reset()\<close> restores.
\<close>

record formField =
  fieldValue :: string
  fieldDefaultValue :: string
  fieldRequired :: bool
  fieldType :: string
  fieldName :: string
  fieldTagName :: string
  fieldAriaInvalid :: "string option"
  fieldErrorClass :: bool
  fieldErrorMessage :: "string option"

text \<open>
  The submit button, as far as \<^verbatim>\<open>setLoadingState\<close> touches it.
\<close>

record submitControl =
  disabled :: bool
  ariaDisabled :: "string option"
  textContent :: string
  classList :: "string list"

text \<open>
  The state that a submission reads and writes: the rate-limit store of \<^verbatim>\<open>Security\<close>,
  the controls of the form and its submit button (\<open>None\<close> when
  \<^verbatim>\<open>form.querySelector('button[type="submit"]')\<close> is \<^verbatim>\<open>null\<close>), whether
  \<^verbatim>\<open>document.body\<close> exists, the global notification shown (message and type), the errors
  passed to \<^verbatim>\<open>console.error\<close>, and the data logged as sent to \<^verbatim>\<open>/api/contact\<close>.
\<close>

record formPage =
  formRateLimitStore :: rateLimitStore
  formFields :: "formField list"
  submitButton :: "submitControl option"
  bodyPresent :: bool
  notification :: "(string \<times> string) option"
  formErrorLog :: "jsError list"
  sentData :: "(string \<rightharpoonup> string) option"

text \<open>
  What a submission takes from the platform: \<^verbatim>\<open>Date.now()\<close> at the rate check, the
  entries of \<^verbatim>\<open>new FormData(form)\<close> (or the exception of that constructor), the value
  of \<^verbatim>\<open>Math.random()\<close>, the CSRF token, \<^verbatim>\<open>new Date().toISOString()\<close> and
  \<^verbatim>\<open>navigator.userAgent\<close>.
\<close>

record submitEnv =
  submitTime :: int
  formDataEntries :: "jsError + (string \<times> jsValue) list"
  randomDraw :: real
  csrfToken :: string
  isoTimestamp :: string
  userAgent :: string

text \<open>
  How the promise of an \<^verbatim>\<open>async\<close> function settles.
\<close>

datatype promise = Fulfilled | Rejected jsError

text \<open>
  \<^verbatim>\<open>clearFieldError(field)\<close> and \<^verbatim>\<open>showFieldError(field, message)\<close>.
\<close>

definition clearFieldError :: "formField \<Rightarrow> formField" where
  "clearFieldError field =
     field\<lparr>fieldAriaInvalid := Some ''false'', fieldErrorClass := False,
           fieldErrorMessage := None\<rparr>"

definition showFieldError :: "formField \<Rightarrow> string \<Rightarrow> formField" where
  "showFieldError field message =
     (clearFieldError field)\<lparr>fieldAriaInvalid := Some ''true'', fieldErrorClass := True,
                              fieldErrorMessage := Some message\<rparr>"

text \<open>
  \<^verbatim>\<open>validateField(field)\<close>: the required test, the \<^verbatim>\<open>switch\<close> on \<^verbatim>\<open>field.type\<close>, the
  test for selects, then the error display; it returns \<^verbatim>\<open>isValid\<close> and the control as
  displayed. The validators get the trimmed value, a string, so each call returns.
\<close>

definition validateField :: "formField \<Rightarrow> bool \<times> formField" where
  "validateField field =
     (let v = trim (fieldValue field);
          required = (if fieldRequired field \<and> v = [] then (False, ''This field is required'')
                      else (True, []));
          typed =
            (if fst required \<and> v \<noteq> [] then
               (if fieldType field = ''email'' then
                  (if validateEmail (JString v) = Inr False
                   then (False, ''Please enter a valid email address'') else required)
                else if fieldType field = ''tel'' then
                  (if validatePhone (JString v) = Inr False
                   then (False, ''Please enter a valid Kenyan phone number'') else required)
                else if fieldType field = ''text'' then
                  (if fieldName field = ''name'' \<and> validateName (JString v) = Inr False
                   then (False, ''Please enter a valid name (2-50 characters)'') else required)
                else required)
             else required);
          selected =
            (if fieldTagName field = ''SELECT'' \<and> fieldRequired field \<and> v = []
             then (False, ''Please select an option'') else typed)
      in (fst selected,
          if fst selected then clearFieldError field else showFieldError field (snd selected)))"

text \<open>
  \<^verbatim>\<open>classList.add\<close> and \<^verbatim>\<open>classList.remove\<close>.
\<close>

definition classListAdd :: "string \<Rightarrow> string list \<Rightarrow> string list" where
  "classListAdd name classes = (if name \<in> set classes then classes else classes @ [name])"

definition classListRemove :: "string \<Rightarrow> string list \<Rightarrow> string list" where
  "classListRemove name classes = removeAll name classes"

text \<open>
  \<^verbatim>\<open>setLoadingState(button, isLoading, originalText = '')\<close>.
\<close>

definition setLoadingState :: "submitControl \<Rightarrow> bool \<Rightarrow> string \<Rightarrow> submitControl" where
  "setLoadingState button isLoading originalText =
     (if isLoading then
        button\<lparr>disabled := True, ariaDisabled := Some ''true'', textContent := ''Sending...'',
               classList := classListAdd ''loading'' (classList button)\<rparr>
      else
        button\<lparr>disabled := False, ariaDisabled := Some ''false'', textContent := originalText,
               classList := classListRemove ''loading'' (classList button)\<rparr>)"

text \<open>
  \<^verbatim>\<open>showNotification(message, type)\<close>: the notification shown before is removed, and
  the new one is appended to \<^verbatim>\<open>document.body\<close>, a \<^verbatim>\<open>TypeError\<close> when there is no
  body. An exception comes with the state at the throw. (The timer that removes the
  notification after five seconds is not modelled.)
\<close>

definition showNotification ::
  "string \<Rightarrow> string \<Rightarrow> formPage \<Rightarrow> jsError \<times> formPage + formPage" where
  "showNotification message kind s =
     (if bodyPresent s then Inr (s\<lparr>notification := Some (message, kind)\<rparr>)
      else Inl (TypeError, s\<lparr>notification := None\<rparr>))"

text \<open>
  \<^verbatim>\<open>collectFormData(form)\<close>: every entry is sanitised into the object
  \<^verbatim>\<open>sanitizedData\<close>, a later entry replacing an earlier one of the same name, and the
  three security fields are added. The sanitised value is a string, so for the name
  \<^verbatim>\<open>__proto__\<close> the assignment goes to the prototype setter, which ignores it: no
  property is stored.
\<close>

fun sanitizeEntries :: "(string \<times> jsValue) list \<Rightarrow> (string \<rightharpoonup> string) \<Rightarrow> jsError + (string \<rightharpoonup> string)" where
  "sanitizeEntries [] sanitizedData = Inr sanitizedData"
| "sanitizeEntries ((key, v) # rest) sanitizedData =
     (case sanitizeInput v of
        Inl e \<Rightarrow> Inl e
      | Inr clean \<Rightarrow>
          sanitizeEntries rest
            (if key = ''__proto__'' then sanitizedData else sanitizedData(key \<mapsto> clean)))"

definition collectFormData :: "submitEnv \<Rightarrow> jsError + (string \<rightharpoonup> string)" where
  "collectFormData env =
     (case formDataEntries env of
        Inl e \<Rightarrow> Inl e
      | Inr entries \<Rightarrow>
          (case sanitizeEntries entries Map.empty of
             Inl e \<Rightarrow> Inl e
           | Inr sanitizedData \<Rightarrow>
               Inr (sanitizedData(''_csrf'' \<mapsto> csrfToken env,
                                  ''_timestamp'' \<mapsto> isoTimestamp env,
                                  ''_userAgent'' \<mapsto> take 100 (userAgent env)))))"

text \<open>
  \<^verbatim>\<open>processFormSubmission(formData)\<close> after its 1.5 seconds: rejected with
  \<^verbatim>\<open>Error('Network error')\<close> when \<^verbatim>\<open>Math.random() < 0.1\<close>, otherwise the data is logged
  and the promise resolved.
\<close>

definition processFormSubmission ::
  "submitEnv \<Rightarrow> (string \<rightharpoonup> string) \<Rightarrow> formPage \<Rightarrow> jsError \<times> formPage + formPage" where
  "processFormSubmission env formData s =
     (if randomDraw env < 0.1 then Inl (Error ''Network error'', s)
      else Inr (s\<lparr>sentData := Some formData\<rparr>))"

text \<open>
  \<^verbatim>\<open>form.reset()\<close>.
\<close>

definition formReset :: "formPage \<Rightarrow> formPage" where
  "formReset s =
     s\<lparr>formFields := map (\<lambda>f. f\<lparr>fieldValue := fieldDefaultValue f\<rparr>) (formFields s)\<rparr>"

text \<open>
  The \<^verbatim>\<open>try\<close>, \<^verbatim>\<open>catch\<close> and \<^verbatim>\<open>finally\<close> blocks of \<^verbatim>\<open>handleFormSubmission\<close>.
\<close>

definition submissionTry :: "submitEnv \<Rightarrow> formPage \<Rightarrow> jsError \<times> formPage + formPage" where
  "submissionTry env s =
     (case collectFormData env of
        Inl e \<Rightarrow> Inl (e, s)
      | Inr formData \<Rightarrow>
          (case processFormSubmission env formData s of
             Inl thrown \<Rightarrow> Inl thrown
           | Inr s1 \<Rightarrow>
               (case showNotification
                       ''Thank you! We have received your inquiry and will contact you within 24 hours.''
                       ''success'' s1 of
                  Inl thrown \<Rightarrow> Inl thrown
                | Inr s2 \<Rightarrow> Inr (formReset s2))))"

definition submissionCatch :: "jsError \<Rightarrow> formPage \<Rightarrow> jsError \<times> formPage + formPage" where
  "submissionCatch e s =
     showNotification
       ''Sorry, there was an error sending your message. Please try again or contact us directly.''
       ''error'' (s\<lparr>formErrorLog := formErrorLog s @ [e]\<rparr>)"

definition submissionFinally :: "string \<Rightarrow> formPage \<Rightarrow> formPage" where
  "submissionFinally originalText s =
     s\<lparr>submitButton := map_option (\<lambda>b. setLoadingState b False originalText) (submitButton s)\<rparr>"

text \<open>
  \<^verbatim>\<open>handleFormSubmission(form)\<close>, once its promise has settled: the rate check, the
  validation of all controls, the loading state, and the three blocks. The result is the
  state and the outcome of the promise.
\<close>

definition settle :: "jsError \<times> formPage + formPage \<Rightarrow> formPage \<times> promise" where
  "settle r = (case r of Inl (e, s) \<Rightarrow> (s, Rejected e) | Inr s \<Rightarrow> (s, Fulfilled))"

definition handleFormSubmission :: "submitEnv \<Rightarrow> formPage \<Rightarrow> formPage \<times> promise" where
  "handleFormSubmission env s =
     (case checkRateLimit ''form_submission'' 3 (submitTime env) (formRateLimitStore s) of
        (allowed, store') \<Rightarrow>
          (let s0 = s\<lparr>formRateLimitStore := store'\<rparr> in
           if \<not> allowed then
             settle (showNotification ''Please wait before submitting another form'' ''error'' s0)
           else
             (let checked = map validateField (formFields s0);
                  isValid = list_all fst checked;
                  s1 = s0\<lparr>formFields := map snd checked\<rparr>
              in if \<not> isValid then
                   settle (showNotification
                             ''Please fix the errors in the form before submitting'' ''error'' s1)
                 else
                   (case submitButton s1 of
                      None \<Rightarrow> (s1, Rejected TypeError)
                    | Some button \<Rightarrow>
                        (let originalText = textContent button;
                             s2 = s1\<lparr>submitButton := Some (setLoadingState button True [])\<rparr>;
                             handled = (case submissionTry env s2 of
                                          Inr s3 \<Rightarrow> Inr s3
                                        | Inl (e, s3) \<Rightarrow> submissionCatch e s3)
                         in case handled of
                              Inr s4 \<Rightarrow> (submissionFinally originalText s4, Fulfilled)
                            | Inl (e, s4) \<Rightarrow> (submissionFinally originalText s4, Rejected e))))))"


text \<open>
  The state in which a block ends, whether it returned or threw.
\<close>

definition stateOf :: "jsError \<times> formPage + formPage \<Rightarrow> formPage" where
  "stateOf r = (case r of Inl (e, s) \<Rightarrow> s | Inr s \<Rightarrow> s)"

text \<open>
  The contact form of \<^verbatim>\<open>initializeContactForm\<close>, filled in, and three platform
  behaviours: a delivered submission, a transport failure, and an exception thrown inside
  the \<^verbatim>\<open>try\<close> block.
\<close>

definition contactField :: "string \<Rightarrow> string \<Rightarrow> string \<Rightarrow> bool \<Rightarrow> string \<Rightarrow> formField" where
  "contactField tag kind name required v =
     \<lparr>fieldValue = v, fieldDefaultValue = [], fieldRequired = required, fieldType = kind,
      fieldName = name, fieldTagName = tag, fieldAriaInvalid = None, fieldErrorClass = False,
      fieldErrorMessage = None\<rparr>"

definition contactButton :: submitControl where
  "contactButton =
     \<lparr>disabled = False, ariaDisabled = None, textContent = ''Get Free Premium Assessment'',
      classList = [''btn-primary'']\<rparr>"

definition contactPage :: formPage where
  "contactPage =
     \<lparr>formRateLimitStore = Map.empty,
      formFields =
        [contactField ''INPUT'' ''text'' ''name'' True ''Amina Otieno'',
         contactField ''INPUT'' ''email'' ''email'' True ''amina@lodge.co.ke'',
         contactField ''INPUT'' ''tel'' ''phone'' True ''0712345678'',
         contactField ''SELECT'' ''select-one'' ''businessType'' True ''safari-lodge'',
         contactField ''SELECT'' ''select-one'' ''vehicleCount'' True ''1-3'',
         contactField ''TEXTAREA'' ''textarea'' ''message'' False []],
      submitButton = Some contactButton, bodyPresent = True, notification = None,
      formErrorLog = [], sentData = None\<rparr>"

definition contactEntries :: "(string \<times> jsValue) list" where
  "contactEntries =
     [(''name'', JString ''Amina Otieno''), (''email'', JString ''amina@lodge.co.ke''),
      (''phone'', JString ''0712345678''), (''businessType'', JString ''safari-lodge''),
      (''vehicleCount'', JString ''1-3''), (''message'', JString [])]"

definition deliveredEnv :: submitEnv where
  "deliveredEnv =
     \<lparr>submitTime = 1000, formDataEntries = Inr contactEntries, randomDraw = 1 / 2,
      csrfToken = ''elyra_1_abc'', isoTimestamp = ''2024-01-01T00:00:00.000Z'',
      userAgent = ''Mozilla/5.0''\<rparr>"

definition transportFailureEnv :: submitEnv where
  "transportFailureEnv = deliveredEnv\<lparr>randomDraw := 1 / 20\<rparr>"

definition throwingEnv :: submitEnv where
  "throwingEnv = deliveredEnv\<lparr>formDataEntries := Inl TypeError\<rparr>"

section \<open>Properties of the rate limiter\<close>

lemma cleanOldEntries_fresh:
  "store key = Some e \<Longrightarrow> \<not> timestamp e < w \<Longrightarrow> cleanOldEntries w store key = Some e"
  by (simp add: cleanOldEntries_def)

lemma cleanOldEntries_stale:
  "store key = Some e \<Longrightarrow> timestamp e < w \<Longrightarrow> cleanOldEntries w store key = None"
  by (simp add: cleanOldEntries_def)

lemma cleanOldEntries_absent:
  "store key = None \<Longrightarrow> cleanOldEntries w store key = None"
  by (simp add: cleanOldEntries_def)

lemma checkRateLimit_first:
  "store key = None \<Longrightarrow>
   checkRateLimit key m now store =
     (True, (cleanOldEntries (now - 60000) store)(key \<mapsto> \<lparr>count = 1, timestamp = now\<rparr>))"
  by (simp add: checkRateLimit_def Let_def cleanOldEntries_absent)

lemma checkRateLimit_under:
  "store key = Some e \<Longrightarrow> \<not> timestamp e < now - 60000 \<Longrightarrow> count e < m \<Longrightarrow>
   checkRateLimit key m now store =
     (True, (cleanOldEntries (now - 60000) store)
              (key \<mapsto> e\<lparr>count := count e + 1, timestamp := now\<rparr>))"
  by (simp add: checkRateLimit_def Let_def cleanOldEntries_fresh)

lemma checkRateLimit_denied:
  "store key = Some e \<Longrightarrow> \<not> timestamp e < now - 60000 \<Longrightarrow> m \<le> count e \<Longrightarrow>
   checkRateLimit key m now store = (False, cleanOldEntries (now - 60000) store)"
  by (simp add: checkRateLimit_def Let_def cleanOldEntries_fresh)

lemma checkRateLimit_stale:
  "store key = Some e \<Longrightarrow> timestamp e < now - 60000 \<Longrightarrow>
   checkRateLimit key m now store =
     (True, (cleanOldEntries (now - 60000) store)(key \<mapsto> \<lparr>count = 1, timestamp = now\<rparr>))"
  by (simp add: checkRateLimit_def Let_def cleanOldEntries_stale)

text \<open>
  C6. Starting from a store with no entry for \<open>''k''\<close>, four consecutive calls with limit 3
  at times inside one 60-second window (and no clear in between) return true, true, true,
  false in that order. After the window clears, the next call returns true again: both when
  the entry is evicted (the call comes more than 60 seconds after the last allowed call) and
  when the periodic clear has emptied the store.
\<close>

theorem checkRateLimit_four_calls:
  assumes "store ''k'' = None"
    and "t1 \<le> t2" and "t2 \<le> t3" and "t3 \<le> t4" and "t4 \<le> t1 + 60000"
  shows "fst (checkRateLimitRun ''k'' 3 [t1, t2, t3, t4] store) = [True, True, True, False]
       \<and> (t3 + 60000 < t5 \<longrightarrow>
            fst (checkRateLimit ''k'' 3 t5
                  (snd (checkRateLimitRun ''k'' 3 [t1, t2, t3, t4] store))))
       \<and> fst (checkRateLimit ''k'' 3 t6
                (clearStore (snd (checkRateLimitRun ''k'' 3 [t1, t2, t3, t4] store))))"
proof -
  let ?e1 = "\<lparr>count = 1, timestamp = t1\<rparr>"
  let ?e2 = "\<lparr>count = 2, timestamp = t2\<rparr>"
  let ?e3 = "\<lparr>count = 3, timestamp = t3\<rparr>"
  let ?s1 = "(cleanOldEntries (t1 - 60000) store)(''k'' \<mapsto> ?e1)"
  let ?s2 = "(cleanOldEntries (t2 - 60000) ?s1)(''k'' \<mapsto> ?e2)"
  let ?s3 = "(cleanOldEntries (t3 - 60000) ?s2)(''k'' \<mapsto> ?e3)"
  let ?s4 = "cleanOldEntries (t4 - 60000) ?s3"
  have c1: "checkRateLimit ''k'' 3 t1 store = (True, ?s1)"
    using assms(1) by (rule checkRateLimit_first)
  have c2: "checkRateLimit ''k'' 3 t2 ?s1 = (True, ?s2)"
    using checkRateLimit_under [of ?s1 "''k''" ?e1 t2 3] assms by simp
  have c3: "checkRateLimit ''k'' 3 t3 ?s2 = (True, ?s3)"
    using checkRateLimit_under [of ?s2 "''k''" ?e2 t3 3] assms by simp
  have c4: "checkRateLimit ''k'' 3 t4 ?s3 = (False, ?s4)"
    using checkRateLimit_denied [of ?s3 "''k''" ?e3 t4 3] assms by simp
  have run: "checkRateLimitRun ''k'' 3 [t1, t2, t3, t4] store = ([True, True, True, False], ?s4)"
    by (simp add: c1 c2 c3 c4)
  have k4: "?s4 ''k'' = Some ?e3"
    using assms by (simp add: cleanOldEntries_def)
  have evicted: "fst (checkRateLimit ''k'' 3 t5 ?s4)" if "t3 + 60000 < t5"
    using checkRateLimit_stale [of ?s4 "''k''" ?e3 t5 3] k4 that by simp
  have cleared: "fst (checkRateLimit ''k'' 3 t6 (clearStore ?s4))"
    by (simp add: checkRateLimit_first clearStore_def)
  show ?thesis
    unfolding run using evicted cleared by simp
qed

theorem checkRateLimit_four_calls_witness:
  "initializeRateLimiting ''k'' = None
   \<and> fst (checkRateLimitRun ''k'' 3 [1000, 2000, 3000, 4000] initializeRateLimiting)
       = [True, True, True, False]
   \<and> fst (checkRateLimit ''k'' 3 63001
            (snd (checkRateLimitRun ''k'' 3 [1000, 2000, 3000, 4000] initializeRateLimiting)))
   \<and> fst (checkRateLimit ''k'' 3 5000
            (clearStore (snd (checkRateLimitRun ''k'' 3 [1000, 2000, 3000, 4000]
                                initializeRateLimiting))))"
  using checkRateLimit_four_calls
          [of initializeRateLimiting 1000 2000 3000 4000 63001 5000]
  by (simp add: initializeRateLimiting_def)

text \<open>
  C10. Every call of \<open>checkRateLimit\<close> first evicts all entries whose timestamp is more
  than 60 seconds before the call time (entries of other keys are otherwise left as they
  are), every allowed call leaves the entry of its key with the call time as timestamp, and
  a key whose entry is older than 60 seconds is allowed again with its count reset to 1,
  whatever its count was and without any periodic clear.
\<close>

theorem checkRateLimit_evicts_and_refreshes:
  "(\<forall>k d. store k = Some d \<and> timestamp d < now - 60000 \<and> k \<noteq> key \<longrightarrow>
       snd (checkRateLimit key m now store) k = None)
   \<and> (\<forall>k d. store k = Some d \<and> \<not> timestamp d < now - 60000 \<and> k \<noteq> key \<longrightarrow>
       snd (checkRateLimit key m now store) k = Some d)
   \<and> (\<forall>k. store k = None \<and> k \<noteq> key \<longrightarrow> snd (checkRateLimit key m now store) k = None)
   \<and> (fst (checkRateLimit key m now store) \<longrightarrow>
       map_option timestamp (snd (checkRateLimit key m now store) key) = Some now)
   \<and> (\<forall>d. store key = Some d \<and> timestamp d < now - 60000 \<longrightarrow>
       fst (checkRateLimit key m now store)
       \<and> snd (checkRateLimit key m now store) key = Some \<lparr>count = 1, timestamp = now\<rparr>)"
proof -
  have others: "snd (checkRateLimit key m now store) k = cleanOldEntries (now - 60000) store k"
    if "k \<noteq> key" for k
    using that by (simp add: checkRateLimit_def Let_def split: option.split)
  have refreshed: "map_option timestamp (snd (checkRateLimit key m now store) key) = Some now"
    if "fst (checkRateLimit key m now store)"
    using that by (simp add: checkRateLimit_def Let_def split: option.splits if_splits)
  have idle: "fst (checkRateLimit key m now store)
      \<and> snd (checkRateLimit key m now store) key = Some \<lparr>count = 1, timestamp = now\<rparr>"
    if "store key = Some d" and "timestamp d < now - 60000" for d
    using that by (simp add: checkRateLimit_stale)
  show ?thesis
    using refreshed idle
    by (simp add: others cleanOldEntries_fresh cleanOldEntries_stale cleanOldEntries_absent)
qed

theorem checkRateLimit_evicts_and_refreshes_witness:
  "staleNeighbourStore ''k'' = Some \<lparr>count = 3, timestamp = 100000\<rparr>
   \<and> staleNeighbourStore ''j'' = Some \<lparr>count = 1, timestamp = 0\<rparr>
   \<and> fst (checkRateLimit ''k'' 3 200000 staleNeighbourStore)
   \<and> snd (checkRateLimit ''k'' 3 200000 staleNeighbourStore) ''k''
       = Some \<lparr>count = 1, timestamp = 200000\<rparr>
   \<and> snd (checkRateLimit ''k'' 3 200000 staleNeighbourStore) ''j'' = None"
  using checkRateLimit_evicts_and_refreshes [of staleNeighbourStore 200000 "''k''" 3]
  by (simp add: staleNeighbourStore_def)

text \<open>
  C7, as stated, fails: a denied call still runs the eviction loop, so it deletes the stale
  entries of other keys; and a key whose stored count is at the limit but whose entry is
  older than 60 seconds is not denied at all.
\<close>

theorem denied_call_frame_counterexample:
  "staleNeighbourStore ''k'' = Some \<lparr>count = 3, timestamp = 100000\<rparr>
   \<and> fst (checkRateLimit ''k'' 3 100000 staleNeighbourStore) = False
   \<and> snd (checkRateLimit ''k'' 3 100000 staleNeighbourStore) \<noteq> staleNeighbourStore
   \<and> exhaustedStore ''k'' = Some \<lparr>count = 3, timestamp = 100000\<rparr>
   \<and> fst (checkRateLimit ''k'' 3 200000 exhaustedStore) = True"
proof -
  have k: "staleNeighbourStore ''k'' = Some \<lparr>count = 3, timestamp = 100000\<rparr>"
    by (simp add: staleNeighbourStore_def)
  have denied: "checkRateLimit ''k'' 3 100000 staleNeighbourStore
                  = (False, cleanOldEntries 40000 staleNeighbourStore)"
    using checkRateLimit_denied
            [of staleNeighbourStore "''k''" "\<lparr>count = 3, timestamp = 100000\<rparr>" 100000 3] k
    by simp
  have "cleanOldEntries 40000 staleNeighbourStore ''j'' = None"
    by (simp add: cleanOldEntries_def staleNeighbourStore_def)
  moreover have "staleNeighbourStore ''j'' \<noteq> None"
    by (simp add: staleNeighbourStore_def)
  ultimately have changed: "cleanOldEntries 40000 staleNeighbourStore \<noteq> staleNeighbourStore"
    by metis
  have e: "exhaustedStore ''k'' = Some \<lparr>count = 3, timestamp = 100000\<rparr>"
    by (simp add: exhaustedStore_def)
  have again: "fst (checkRateLimit ''k'' 3 200000 exhaustedStore)"
    using checkRateLimit_stale
            [of exhaustedStore "''k''" "\<lparr>count = 3, timestamp = 100000\<rparr>" 200000 3] e
    by simp
  show ?thesis
    using k changed e again by (simp add: denied)
qed

text \<open>
  C7, amended. A call made while the entry of the key is not older than 60 seconds and its
  count is at or over the limit returns false, and the store after the call is the store
  with exactly the entries older than 60 seconds removed: the entry of the key keeps its
  count and timestamp, and when no entry is older than 60 seconds the store is unchanged.
\<close>

theorem denied_call_frame:
  assumes "store key = Some e" and "maxRequests \<le> count e"
    and "\<not> timestamp e < now - 60000"
  shows "fst (checkRateLimit key maxRequests now store) = False
       \<and> snd (checkRateLimit key maxRequests now store) key = Some e
       \<and> (\<forall>k d. store k = Some d \<and> timestamp d < now - 60000 \<longrightarrow>
             snd (checkRateLimit key maxRequests now store) k = None)
       \<and> (\<forall>k d. store k = Some d \<and> \<not> timestamp d < now - 60000 \<longrightarrow>
             snd (checkRateLimit key maxRequests now store) k = Some d)
       \<and> (\<forall>k. store k = None \<longrightarrow> snd (checkRateLimit key maxRequests now store) k = None)
       \<and> ((\<forall>k d. store k = Some d \<longrightarrow> \<not> timestamp d < now - 60000) \<longrightarrow>
             snd (checkRateLimit key maxRequests now store) = store)"
proof -
  have res: "checkRateLimit key maxRequests now store
               = (False, cleanOldEntries (now - 60000) store)"
    using assms by (simp add: checkRateLimit_denied)
  have same: "cleanOldEntries (now - 60000) store = store"
    if "\<forall>k d. store k = Some d \<longrightarrow> \<not> timestamp d < now - 60000"
  proof
    fix k
    show "cleanOldEntries (now - 60000) store k = store k"
      using that by (cases "store k") (simp_all add: cleanOldEntries_def)
  qed
  show ?thesis
    using assms same
    by (simp add: res cleanOldEntries_fresh cleanOldEntries_stale cleanOldEntries_absent)
qed

theorem denied_call_frame_witness:
  "exhaustedStore ''k'' = Some \<lparr>count = 3, timestamp = 100000\<rparr>
   \<and> fst (checkRateLimit ''k'' 3 100500 exhaustedStore) = False
   \<and> snd (checkRateLimit ''k'' 3 100500 exhaustedStore) = exhaustedStore"
proof -
  have e: "exhaustedStore ''k'' = Some \<lparr>count = 3, timestamp = 100000\<rparr>"
    by (simp add: exhaustedStore_def)
  have fresh: "\<forall>k d. exhaustedStore k = Some d \<longrightarrow> \<not> timestamp d < 100500 - 60000"
    by (auto simp: exhaustedStore_def split: if_splits)
  show ?thesis
    using denied_call_frame
            [of exhaustedStore "''k''" "\<lparr>count = 3, timestamp = 100000\<rparr>" 3 100500] fresh e
    by simp
qed

section \<open>Properties of the savings calculator\<close>

lemma getValidatedInputs_ranges:
  assumes "getValidatedInputs cd mk vc pm = Some i"
  shows "50000 \<le> dieselCost i \<and> dieselCost i \<le> 1000000
       \<and> 100 \<le> monthlyKm i \<and> monthlyKm i \<le> 10000
       \<and> 1 \<le> vehicleCount i \<and> vehicleCount i \<le> 50
       \<and> ppaModel i \<in> {''exchange'', ''traditional'', ''lease''}"
  using assms
  by (auto simp: getValidatedInputs_def validateNumberInput_def validateSelectInput_def
        validOptions_def split: option.splits if_splits)

lemma updateElement_lookup:
  "elementText (updateElement a v page) b
     = (if a = b \<and> elementText page a \<noteq> None then Some v else elementText page b)"
  by (simp add: updateElement_def)

lemma displayResults_percent:
  assumes "elementText page ''savingsPercent'' \<noteq> None"
  shows "elementText (displayResults fmt r page) ''savingsPercent''
           = Some (toFixed0 (max 0 (savingsPercent r)) @ ''%'')"
  using assms by (simp add: displayResults_def Let_def updateElement_lookup)

lemma displayResults_savings:
  assumes "elementText page ''savings'' \<noteq> None"
  shows "elementText (displayResults fmt r page) ''savings''
           = Some (fmt (roundsToNegativeZero (monthlySavings r)) (mathRound (monthlySavings r)))"
  using assms by (simp add: displayResults_def Let_def updateElement_lookup formatCurrency_def)

text \<open>
  C4. For dieselCost in [50000, 1000000], monthlyKm in [100, 10000], vehicleCount in
  [1, 50] and a model among exchange, traditional and lease, \<open>calculateSavings\<close> returns
  currentMonthlyCost = dieselCost * vehicleCount; newMonthlyCost = 120000 * vehicleCount
  for exchange, 95000 * vehicleCount + 14 * monthlyKm * vehicleCount for traditional and
  175000 * vehicleCount for lease; monthlySavings = currentMonthlyCost - newMonthlyCost;
  annualSavings = 12 * monthlySavings. The witness is the input of the specification:
  250000, 2000, 1, exchange give 250000, 120000, 130000 and 1560000.
\<close>

theorem calculateSavings_formula:
  assumes "50000 \<le> dieselCost i" and "dieselCost i \<le> 1000000"
    and "100 \<le> monthlyKm i" and "monthlyKm i \<le> 10000"
    and "1 \<le> vehicleCount i" and "vehicleCount i \<le> 50"
    and "ppaModel i \<in> {''exchange'', ''traditional'', ''lease''}"
  shows "currentMonthlyCost (calculateSavings i) = dieselCost i * vehicleCount i
       \<and> (ppaModel i = ''exchange'' \<longrightarrow>
            newMonthlyCost (calculateSavings i) = 120000 * vehicleCount i)
       \<and> (ppaModel i = ''traditional'' \<longrightarrow>
            newMonthlyCost (calculateSavings i)
              = 95000 * vehicleCount i + 14 * monthlyKm i * vehicleCount i)
       \<and> (ppaModel i = ''lease'' \<longrightarrow>
            newMonthlyCost (calculateSavings i) = 175000 * vehicleCount i)
       \<and> monthlySavings (calculateSavings i)
            = currentMonthlyCost (calculateSavings i) - newMonthlyCost (calculateSavings i)
       \<and> annualSavings (calculateSavings i) = 12 * monthlySavings (calculateSavings i)"
  by (simp add: calculateSavings_def Let_def)

theorem calculateSavings_formula_witness:
  "currentMonthlyCost (calculateSavings defaultInputs) = 250000
   \<and> newMonthlyCost (calculateSavings defaultInputs) = 120000
   \<and> monthlySavings (calculateSavings defaultInputs) = 130000
   \<and> annualSavings (calculateSavings defaultInputs) = 1560000"
  using calculateSavings_formula [of defaultInputs]
  by (simp add: defaultInputs_def)

text \<open>
  C5. For every validated input (every result of \<open>getValidatedInputs\<close>) with negative
  monthly savings, \<open>savingsPercent\<close> is 0 and the percentage written to the page is
  \<open>0%\<close>, while \<open>monthlySavings\<close> is returned unclamped, currentMonthlyCost -
  newMonthlyCost, and is written to the page as it is (rounded, negative). The witness is a
  validated input whose monthly savings are negative.
\<close>

theorem savingsPercent_clamped:
  assumes "getValidatedInputs cd mk vc pm = Some i"
    and "monthlySavings (calculateSavings i) < 0"
    and "elementText page ''savingsPercent'' \<noteq> None"
    and "elementText page ''savings'' \<noteq> None"
  shows "savingsPercent (calculateSavings i) = 0
       \<and> elementText (displayResults fmt (calculateSavings i) page) ''savingsPercent''
            = Some ''0%''
       \<and> monthlySavings (calculateSavings i)
            = dieselCost i * vehicleCount i - newMonthlyCost (calculateSavings i)
       \<and> elementText (displayResults fmt (calculateSavings i) page) ''savings''
            = Some (fmt (roundsToNegativeZero (monthlySavings (calculateSavings i)))
                        (mathRound (monthlySavings (calculateSavings i))))
       \<and> mathRound (monthlySavings (calculateSavings i)) \<le> 0"
proof -
  let ?r = "calculateSavings i"
  have pct: "savingsPercent ?r = 0"
    using assms(2) by (simp add: calculateSavings_def Let_def)
  have raw: "monthlySavings ?r = dieselCost i * vehicleCount i - newMonthlyCost ?r"
    by (simp add: calculateSavings_def Let_def)
  have zero: "toFixed0 (max 0 0) @ ''%'' = ''0%''"
    by (simp add: toFixed0_def decimalDigits.simps digitChar_def)
  have shown_pct: "elementText (displayResults fmt ?r page) ''savingsPercent'' = Some ''0%''"
    using zero by (simp add: displayResults_percent [OF assms(3)] pct)
  have shown_sav: "elementText (displayResults fmt ?r page) ''savings''
                     = Some (fmt (roundsToNegativeZero (monthlySavings ?r))
                                 (mathRound (monthlySavings ?r)))"
    by (rule displayResults_savings [OF assms(4)])
  have "monthlySavings ?r + 1 / 2 < 1"
    using assms(2) by simp
  then have neg: "mathRound (monthlySavings ?r) \<le> 0"
    unfolding mathRound_def by (simp add: floor_le_iff)
  show ?thesis
    using pct raw shown_pct shown_sav neg by simp
qed

theorem savingsPercent_clamped_witness:
  "getValidatedInputs (Some 50000) (Some 2000) (Some 1) (Some ''exchange'')
     = Some cheapDieselInputs
   \<and> monthlySavings (calculateSavings cheapDieselInputs) = - 70000
   \<and> savingsPercent (calculateSavings cheapDieselInputs) = 0
   \<and> elementText (displayResults plainFormat (calculateSavings cheapDieselInputs) resultsPage)
        ''savingsPercent'' = Some ''0%''
   \<and> elementText (displayResults plainFormat (calculateSavings cheapDieselInputs) resultsPage)
        ''savings'' = Some (plainFormat False (- 70000))"
proof -
  have v: "getValidatedInputs (Some 50000) (Some 2000) (Some 1) (Some ''exchange'')
             = Some cheapDieselInputs"
    by (simp add: getValidatedInputs_def validateNumberInput_def validateSelectInput_def
          validOptions_def cheapDieselInputs_def)
  have m: "monthlySavings (calculateSavings cheapDieselInputs) = - 70000"
    by (simp add: calculateSavings_def Let_def cheapDieselInputs_def)
  have r: "mathRound (- 70000) = - 70000" "\<not> roundsToNegativeZero (- 70000)"
    by (simp_all add: mathRound_def roundsToNegativeZero_def)
  have p: "elementText resultsPage ''savingsPercent'' \<noteq> None"
    and s: "elementText resultsPage ''savings'' \<noteq> None"
    by (simp_all add: resultsPage_def)
  show ?thesis
    using savingsPercent_clamped [of "Some 50000" "Some 2000" "Some 1" "Some ''exchange''"
            cheapDieselInputs resultsPage plainFormat] v m p s r
    by simp
qed

section \<open>Properties of the validators\<close>

text \<open>The examples of the specification, on the model.\<close>

lemma validatePhone_examples:
  "validatePhone (JString ''0712345678'') = Inr True"
  "validatePhone (JString ''12345'') = Inr False"
  "validatePhone (JString ''+254 712 345 678'') = Inr True"
  by (simp_all add: validatePhone_def phoneRegex_def afterPrefix_def isSubscriber_def
        isWhitespace_def isDigit_def)

lemma validateEmail_examples:
  "validateEmail (JString ''a@b.com'') = Inr True"
  "validateEmail (JString ''not-an-email'') = Inr False"
  by (simp_all add: validateEmail_def toStringJS_def emailRegex_def isLocalChar_def
        isAlnum_def isLetter_def isDigit_def isLabel_def)

lemma sanitizeInput_example:
  "sanitizeInput (JString ''<script>'') = Inr ''&lt;script&gt;''"
  by (simp add: sanitizeInput_def replaceAll_def trim_def isWhitespace_def)

text \<open>The validators that do not throw, on every value of the model.\<close>

lemma guarded_validators_total:
  "\<exists>b. validateEmail v = Inr b" "\<exists>b. validateName v = Inr b" "\<exists>t. sanitizeInput v = Inr t"
  by (auto simp: validateEmail_def validateName_def sanitizeInput_def split: jsValue.split)

lemma validatePhone_throws_iff:
  "validatePhone v = Inl TypeError \<longleftrightarrow> (\<forall>s. v \<noteq> JString s)"
  by (cases v) (simp_all add: validatePhone_def)

text \<open>
  C8. The claim is that no validator throws on a non-string value. \<open>validateName\<close> and
  \<open>sanitizeInput\<close> test \<^verbatim>\<open>typeof\<close> first and \<open>validateEmail\<close> only converts its argument
  to a string, but \<open>validatePhone\<close> calls \<^verbatim>\<open>phone.replace\<close> unguarded: on the number
  712345678, on \<^verbatim>\<open>null\<close> and on \<^verbatim>\<open>undefined\<close> it throws a \<^verbatim>\<open>TypeError\<close>, where the
  other three return false or the empty string.
\<close>

theorem validatePhone_non_string_throws:
  "validatePhone (JNumber 712345678) = Inl TypeError
   \<and> validatePhone JNull = Inl TypeError
   \<and> validatePhone JUndefined = Inl TypeError
   \<and> validateName (JNumber 712345678) = Inr False
   \<and> sanitizeInput (JNumber 712345678) = Inr []
   \<and> validateEmail JNull = Inr False"
  by (simp add: validatePhone_def validateName_def sanitizeInput_def validateEmail_def
        toStringJS_def emailRegex_def)

section \<open>Properties of navigation\<close>

lemma targetPage_valid: "isValidPage (targetPage page)"
  by (simp add: targetPage_def isValidPage_def validPages_def)

lemma targetPage_invalid: "\<not> isValidPage page \<Longrightarrow> targetPage page = ''home''"
  by (simp add: targetPage_def)

lemma navigateTo_fields:
  "currentPage (navigateTo page s) = targetPage page"
  "locationHash (navigateTo page s) = targetPage page"
  "mainElement (navigateTo page s) = mainElement s"
  "builtCoordinators (navigateTo page s) = builtCoordinators s"
  "navLinks (navigateTo page s) = navLinks (updateActiveNav (targetPage page) s)"
  "navErrorLog (navigateTo page s) = navErrorLog s"
  "unhandledRejections (navigateTo page s) = unhandledRejections s"
  by (simp_all add: navigateTo_def updateActiveNav_def)

lemma initializePageFunctionality_others:
  "currentPage (initializePageFunctionality env page s) = currentPage s"
  "locationHash (initializePageFunctionality env page s) = locationHash s"
  "mainElement (initializePageFunctionality env page s) = mainElement s"
  "navLinks (initializePageFunctionality env page s) = navLinks s"
  "navErrorLog (initializePageFunctionality env page s) = navErrorLog s"
  "unhandledRejections (initializePageFunctionality env page s) = unhandledRejections s"
  by (simp_all add: initializePageFunctionality_def)


lemma loadPageContent_currentPage:
  assumes "\<forall>t t'. loadErrorPage env t = Inr t' \<longrightarrow> currentPage t' = currentPage t"
  shows "currentPage (loadPageContent env page s) = currentPage s"
proof (cases "tryLoadPageContent env page s")
  case (Inr s')
  then have "currentPage s' = currentPage s"
    by (auto simp: tryLoadPageContent_def initializePageFunctionality_others
          split: sum.splits option.splits)
  with Inr show ?thesis by (simp add: loadPageContent_def)
next
  case (Inl p)
  obtain e s' where p: "p = (e, s')" by (cases p)
  with Inl have s': "s' = s"
    by (auto simp: tryLoadPageContent_def split: sum.splits option.splits)
  show ?thesis
    using Inl p s' assms
    by (auto simp: loadPageContent_def Let_def split: sum.splits)
qed

text \<open>
  C1. For every string that is not one of home, solutions, models, calculator and contact,
  \<open>navigateTo\<close> returns with \<open>currentPage\<close> (and the fragment) set to home; the model
  of the call has no error branch, since nothing on its path throws and the promise of
  \<^verbatim>\<open>loadPageContent\<close> is dropped. The current page is still home once the content has
  settled, unless a \<^verbatim>\<open>loadErrorPage\<close> changes it.
\<close>

theorem navigateTo_invalid_key_goes_home:
  assumes "requestedKey \<notin> {''home'', ''solutions'', ''models'', ''calculator'', ''contact''}"
  shows "currentPage (navigateTo requestedKey s) = ''home''
       \<and> locationHash (navigateTo requestedKey s) = ''home''
       \<and> ((\<forall>t t'. loadErrorPage env t = Inr t' \<longrightarrow> currentPage t' = currentPage t) \<longrightarrow>
            currentPage (navigateToSettled env requestedKey s) = ''home'')"
proof -
  have invalid: "\<not> isValidPage requestedKey"
    using assms by (simp add: isValidPage_def validPages_def)
  then have home: "targetPage requestedKey = ''home''"
    by (rule targetPage_invalid)
  show ?thesis
    by (simp add: navigateTo_fields home navigateToSettled_def loadPageContent_currentPage)
qed

theorem navigateTo_invalid_key_goes_home_witness:
  "currentPage (navigateTo ''pricing'' constructed) = ''home''
   \<and> locationHash (navigateTo ''pricing'' constructed) = ''home''
   \<and> currentPage (navigateToSettled sourceEnv ''pricing'' constructed) = ''home''"
  using navigateTo_invalid_key_goes_home [of "''pricing''" constructed sourceEnv]
  by (simp add: sourceEnv_def)

lemma generatePageContent_sourceEnv:
  "generatePageContent sourceEnv page = Inl TypeError"
  by (simp add: generatePageContent_def sourceEnv_def)

lemma navigateToSettled_sourceEnv:
  "navigateToSettled sourceEnv page s
     = (navigateTo page s)\<lparr>navErrorLog := navErrorLog s @ [TypeError],
                            unhandledRejections := unhandledRejections s @ [TypeError]\<rparr>"
proof -
  have "loadErrorPage sourceEnv = (\<lambda>t. Inl TypeError)"
    by (simp add: sourceEnv_def)
  then show ?thesis
    by (simp add: navigateToSettled_def loadPageContent_def tryLoadPageContent_def
          generatePageContent_sourceEnv navigateTo_fields)
qed

lemma navigateAll_sourceEnv_builds_nothing:
  "builtCoordinators (navigateAll sourceEnv pages s) = builtCoordinators s
   \<and> mainElement (navigateAll sourceEnv pages s) = mainElement s"
proof (induction pages arbitrary: s)
  case Nil
  show ?case by simp
next
  case (Cons page pages)
  show ?case
    by (simp add: Cons.IH navigateToSettled_sourceEnv navigateTo_fields)
qed

text \<open>
  C2. The claim is that calling \<open>navigateTo\<close> twice with the key contact leaves exactly
  one coordinator mounted. \<open>initializePageFunctionality\<close> does build a FormHandler for
  contact, but in the class as the source has it that step is never reached:
  \<open>generatePageContent\<close> throws on the first generator that is not defined. After one
  navigation to contact, after two, and after one to calculator, no coordinator has been
  built, and the main element still has its first content.
\<close>

theorem navigateTo_contact_builds_no_coordinator:
  "builtCoordinators (initializePageFunctionality sourceEnv ''contact'' constructed)
     = [FormHandlerInstance]
   \<and> generatePageContent sourceEnv ''contact'' = Inl TypeError
   \<and> builtCoordinators (navigateAll sourceEnv [''contact''] constructed) = []
   \<and> builtCoordinators (navigateAll sourceEnv [''contact'', ''contact''] constructed) = []
   \<and> builtCoordinators (navigateAll sourceEnv [''calculator''] constructed) = []
   \<and> mainElement (navigateAll sourceEnv [''contact'', ''contact''] constructed)
       = Some (Markup [])"
proof -
  have first: "builtCoordinators (initializePageFunctionality sourceEnv ''contact'' constructed)
                 = [FormHandlerInstance]"
    by (simp add: initializePageFunctionality_def sourceEnv_def constructed_def)
  have start: "builtCoordinators constructed = []" "mainElement constructed = Some (Markup [])"
    by (simp_all add: constructed_def)
  show ?thesis
    using first start
    by (simp add: generatePageContent_sourceEnv navigateToSettled_sourceEnv navigateTo_fields)
qed

text \<open>
  C3. The claim is that a navigation whose content generation throws is recovered by
  rendering the home page content and logging the failure, without leaving the document
  partially updated. The \<^verbatim>\<open>catch\<close> block of \<^verbatim>\<open>loadPageContent\<close> logs the error and
  then calls \<^verbatim>\<open>this.loadErrorPage()\<close>, a method the class does not define. In the class
  as the source has it, a navigation to contact from the constructed state throws during
  content generation; the error is logged, the recovery call throws in turn and the promise
  is rejected; the main element keeps the content it had, which is not the home template,
  while the current page, the fragment and the link highlighting already show contact.
\<close>

theorem failed_navigation_not_recovered:
  "generatePageContent sourceEnv ''contact'' = Inl TypeError
   \<and> navErrorLog (navigateToSettled sourceEnv ''contact'' constructed) = [TypeError]
   \<and> unhandledRejections (navigateToSettled sourceEnv ''contact'' constructed) = [TypeError]
   \<and> mainElement (navigateToSettled sourceEnv ''contact'' constructed) = Some (Markup [])
   \<and> mainElement (navigateToSettled sourceEnv ''contact'' constructed)
       \<noteq> Some generateHomePage
   \<and> currentPage (navigateToSettled sourceEnv ''contact'' constructed) = ''contact''
   \<and> locationHash (navigateToSettled sourceEnv ''contact'' constructed) = ''contact''
   \<and> map (\<lambda>link. (dataPage link, activeClass link))
         (navLinks (navigateToSettled sourceEnv ''contact'' constructed))
       = [(''home'', False), (''solutions'', False), (''models'', False),
          (''calculator'', False), (''contact'', True)]"
proof -
  have target: "targetPage ''contact'' = ''contact''"
    by (simp add: targetPage_def isValidPage_def validPages_def)
  have start: "navErrorLog constructed = []" "unhandledRejections constructed = []"
    "mainElement constructed = Some (Markup [])"
    by (simp_all add: constructed_def)
  have links: "map (\<lambda>link. (dataPage link, activeClass link))
                 (navLinks (updateActiveNav ''contact'' constructed))
               = [(''home'', False), (''solutions'', False), (''models'', False),
                  (''calculator'', False), (''contact'', True)]"
    by (simp add: updateActiveNav_def constructed_def loadNavigation_def validPages_def)
  show ?thesis
    using links
    by (simp add: generatePageContent_sourceEnv navigateToSettled_sourceEnv navigateTo_fields
          target start generateHomePage_def)
qed

section \<open>Properties of form handling\<close>

lemma showNotification_button:
  "submitButton (stateOf (showNotification m k s)) = submitButton s"
  by (simp add: showNotification_def stateOf_def)

lemma submissionTry_button:
  "submitButton (stateOf (submissionTry env s)) = submitButton s"
  by (auto simp: submissionTry_def processFormSubmission_def showNotification_def formReset_def
        stateOf_def split: sum.splits prod.splits)

lemma submissionCatch_button:
  "submitButton (stateOf (submissionCatch e s)) = submitButton s"
  by (simp add: submissionCatch_def showNotification_def stateOf_def)

lemma classList_loading:
  "classListRemove ''loading'' (classListAdd ''loading'' classes) = removeAll ''loading'' classes"
  by (simp add: classListRemove_def classListAdd_def)

lemma setLoadingState_restores:
  "setLoadingState (setLoadingState b True t) False (textContent b)
     = b\<lparr>disabled := False, ariaDisabled := Some ''false'',
         classList := removeAll ''loading'' (classList b)\<rparr>"
  by (simp add: setLoadingState_def classList_loading)

lemma handleFormSubmission_loading:
  assumes "fst (checkRateLimit ''form_submission'' 3 (submitTime env) (formRateLimitStore s))"
    and "list_all (\<lambda>f. fst (validateField f)) (formFields s)"
    and "submitButton s = Some b"
  shows "\<exists>s2 handled.
           submitButton s2 = Some (setLoadingState b True [])
           \<and> handled = (case submissionTry env s2 of
                          Inr s3 \<Rightarrow> Inr s3 | Inl (e, s3) \<Rightarrow> submissionCatch e s3)
           \<and> fst (handleFormSubmission env s) = submissionFinally (textContent b) (stateOf handled)"
proof -
  obtain store' where c: "checkRateLimit ''form_submission'' 3 (submitTime env)
                            (formRateLimitStore s) = (True, store')"
    using assms(1) by (cases "checkRateLimit ''form_submission'' 3 (submitTime env)
                                (formRateLimitStore s)") simp
  have v: "list_all fst (map validateField (formFields s))"
    using assms(2) by (simp add: list_all_iff)
  let ?s1 = "s\<lparr>formRateLimitStore := store',
               formFields := map snd (map validateField (formFields s))\<rparr>"
  let ?s2 = "?s1\<lparr>submitButton := Some (setLoadingState b True [])\<rparr>"
  let ?handled = "case submissionTry env ?s2 of
                    Inr s3 \<Rightarrow> Inr s3 | Inl (e, s3) \<Rightarrow> submissionCatch e s3"
  have "fst (handleFormSubmission env s) = submissionFinally (textContent b) (stateOf ?handled)"
    using assms(3) v
    by (simp add: handleFormSubmission_def c Let_def stateOf_def split: sum.split prod.split)
  then show ?thesis
    by (intro exI [of _ ?s2] exI [of _ ?handled]) simp
qed

text \<open>
  C9. A submission reaches the loading state when the rate check allows it, every control
  is valid and the form has a submit button. Then, however the submission ends (delivered,
  transport failure, an exception in the \<^verbatim>\<open>try\<close> block or in the \<^verbatim>\<open>catch\<close> block), the
  button ends up enabled, with \<^verbatim>\<open>aria-disabled\<close> false, with the text it had when the
  call started and without the class \<^verbatim>\<open>loading\<close>.
\<close>

theorem handleFormSubmission_restores_button:
  assumes "fst (checkRateLimit ''form_submission'' 3 (submitTime env) (formRateLimitStore s))"
    and "list_all (\<lambda>f. fst (validateField f)) (formFields s)"
    and "submitButton s = Some b"
  shows "submitButton (fst (handleFormSubmission env s))
           = Some (b\<lparr>disabled := False, ariaDisabled := Some ''false'',
                     classList := removeAll ''loading'' (classList b)\<rparr>)"
proof -
  obtain s2 handled where s2: "submitButton s2 = Some (setLoadingState b True [])"
    and handled: "handled = (case submissionTry env s2 of
                    Inr s3 \<Rightarrow> Inr s3 | Inl (e, s3) \<Rightarrow> submissionCatch e s3)"
    and final: "fst (handleFormSubmission env s) = submissionFinally (textContent b) (stateOf handled)"
    using handleFormSubmission_loading [OF assms] by blast
  have "submitButton (stateOf handled) = submitButton s2"
  proof (cases "submissionTry env s2")
    case (Inr s3)
    then show ?thesis
      using submissionTry_button [of env s2] by (simp add: handled stateOf_def)
  next
    case (Inl p)
    obtain e s3 where p: "p = (e, s3)" by (cases p)
    have "submitButton s3 = submitButton s2"
      using submissionTry_button [of env s2] Inl p by (simp add: stateOf_def)
    then show ?thesis
      using submissionCatch_button [of e s3] Inl p by (simp add: handled)
  qed
  then show ?thesis
    by (simp add: final submissionFinally_def s2 setLoadingState_restores)
qed

lemma contactPage_valid:
  "list_all (\<lambda>f. fst (validateField f)) (formFields contactPage)"
  by (simp add: contactPage_def contactField_def validateField_def Let_def trim_def
        isWhitespace_def validateEmail_def toStringJS_def emailRegex_def isLocalChar_def
        isAlnum_def isLetter_def isDigit_def isLabel_def validatePhone_def phoneRegex_def
        afterPrefix_def isSubscriber_def validateName_def isNameChar_def)

lemma contactPage_allowed:
  "fst (checkRateLimit ''form_submission'' 3 1000 (formRateLimitStore contactPage))"
  by (simp add: contactPage_def checkRateLimit_first)

lemma contact_inputs:
  "submitButton contactPage = Some contactButton"
  "submitButton (contactPage\<lparr>bodyPresent := False\<rparr>) = Some contactButton"
  "formFields (contactPage\<lparr>bodyPresent := False\<rparr>) = formFields contactPage"
  "formRateLimitStore (contactPage\<lparr>bodyPresent := False\<rparr>) = formRateLimitStore contactPage"
  "submitTime deliveredEnv = 1000" "submitTime transportFailureEnv = 1000"
  "submitTime throwingEnv = 1000"
  by (simp_all add: contactPage_def deliveredEnv_def transportFailureEnv_def throwingEnv_def)

lemma contact_outcomes:
  "snd (handleFormSubmission deliveredEnv contactPage) = Fulfilled"
  "formErrorLog (fst (handleFormSubmission deliveredEnv contactPage)) = []"
  "snd (handleFormSubmission transportFailureEnv contactPage) = Fulfilled"
  "formErrorLog (fst (handleFormSubmission transportFailureEnv contactPage))
     = [Error ''Network error'']"
  "snd (handleFormSubmission throwingEnv contactPage) = Fulfilled"
  "formErrorLog (fst (handleFormSubmission throwingEnv contactPage)) = [TypeError]"
  "snd (handleFormSubmission deliveredEnv (contactPage\<lparr>bodyPresent := False\<rparr>))
     = Rejected TypeError"
  using contactPage_valid contactPage_allowed
  by (simp_all add: handleFormSubmission_def Let_def list_all_iff contactPage_def
        checkRateLimit_first deliveredEnv_def transportFailureEnv_def throwingEnv_def
        submissionTry_def submissionCatch_def submissionFinally_def collectFormData_def
        processFormSubmission_def showNotification_def formReset_def contactEntries_def
        sanitizeInput_def split: prod.split)

theorem handleFormSubmission_restores_button_witness:
  "snd (handleFormSubmission deliveredEnv contactPage) = Fulfilled
   \<and> submitButton (fst (handleFormSubmission deliveredEnv contactPage))
       = Some (contactButton\<lparr>ariaDisabled := Some ''false''\<rparr>)
   \<and> formErrorLog (fst (handleFormSubmission transportFailureEnv contactPage))
       = [Error ''Network error'']
   \<and> submitButton (fst (handleFormSubmission transportFailureEnv contactPage))
       = Some (contactButton\<lparr>ariaDisabled := Some ''false''\<rparr>)
   \<and> formErrorLog (fst (handleFormSubmission throwingEnv contactPage)) = [TypeError]
   \<and> submitButton (fst (handleFormSubmission throwingEnv contactPage))
       = Some (contactButton\<lparr>ariaDisabled := Some ''false''\<rparr>)
   \<and> snd (handleFormSubmission deliveredEnv (contactPage\<lparr>bodyPresent := False\<rparr>))
       = Rejected TypeError
   \<and> submitButton (fst (handleFormSubmission deliveredEnv (contactPage\<lparr>bodyPresent := False\<rparr>)))
       = Some (contactButton\<lparr>ariaDisabled := Some ''false''\<rparr>)"
proof -
  have ready: "contactButton\<lparr>disabled := False, ariaDisabled := Some ''false'',
                 classList := removeAll ''loading'' (classList contactButton)\<rparr>
               = contactButton\<lparr>ariaDisabled := Some ''false''\<rparr>"
    by (simp add: contactButton_def)
  show ?thesis
    using handleFormSubmission_restores_button [of deliveredEnv contactPage contactButton]
      handleFormSubmission_restores_button [of transportFailureEnv contactPage contactButton]
      handleFormSubmission_restores_button [of throwingEnv contactPage contactButton]
      handleFormSubmission_restores_button
        [of deliveredEnv "contactPage\<lparr>bodyPresent := False\<rparr>" contactButton]
      contactPage_valid contactPage_allowed
    by (simp add: contact_inputs contact_outcomes ready)
qed

end
